theory Spec2Isabelle
  imports Complex_Main "HOL-Library.Sublist"
begin

section \<open>Numbers\<close>

text \<open>
  The Python sources compute with floats. They are modelled as exact real numbers:
  every property below is about thresholds, clamping, ordering and bookkeeping, not
  about the rounding error of a single float operation.
\<close>

definition py_int :: "real \<Rightarrow> int" where
  \<comment> \<open>Python's \<open>int(x)\<close> on a float: truncation towards zero.\<close>
  "py_int x = (if 0 \<le> x then \<lfloor>x\<rfloor> else \<lceil>x\<rceil>)"

definition round_half_even :: "real \<Rightarrow> int" where
  \<comment> \<open>Rounding to the nearest integer, a tie going to the even neighbour.\<close>
  "round_half_even x =
     (let f = \<lfloor>x\<rfloor>; d = x - of_int f
      in if d < 1 / 2 then f
         else if 1 / 2 < d then f + 1
         else if even f then f else f + 1)"

definition py_round :: "real \<Rightarrow> nat \<Rightarrow> real" where
  \<comment> \<open>Python's \<open>round(x, ndigits)\<close>.\<close>
  "py_round x ndigits = of_int (round_half_even (x * 10 ^ ndigits)) / 10 ^ ndigits"

section \<open>The alert engine (traffic\_alerts.py)\<close>

text \<open>
  One row of the \<open>traffic_data\<close> table as \<open>check_for_alerts\<close> reads it: the columns
  the rules look at, holding numbers.
\<close>

record traffic_row =
  row_point_name :: string
  row_current_speed :: real
  row_free_flow_speed :: real
  row_traffic_incidents :: int

datatype alert_kind = CONGESTION | INCIDENTS | SPEED_REDUCTION

text \<open>
  An alert as \<open>check_for_alerts\<close> builds it. The \<open>message\<close> entry is display text
  formatted from the same numbers; it takes no part in any decision and is left out.
\<close>

record alert =
  point_name :: string
  alert_type :: alert_kind
  severity :: int

definition severe_congestion_threshold :: real where
  "severe_congestion_threshold = 80"

definition high_incident_threshold :: int where
  "high_incident_threshold = 3"

definition speed_reduction_threshold :: real where
  "speed_reduction_threshold = 4 / 10"

definition traffic_index :: "real \<Rightarrow> real \<Rightarrow> real" where
  \<comment> \<open>traffic\_alerts.py, lines 72 to 76.\<close>
  "traffic_index current_speed free_flow_speed =
     (if 0 < free_flow_speed \<and> 0 < current_speed
      then max 0 (min 100 (100 * (1 - current_speed / free_flow_speed)))
      else 0)"

definition congestion_alert :: "traffic_row \<Rightarrow> alert list" where
  "congestion_alert r =
     (let ti = traffic_index (row_current_speed r) (row_free_flow_speed r)
      in if severe_congestion_threshold \<le> ti
         then [\<lparr>point_name = row_point_name r, alert_type = CONGESTION,
                severity = min (py_int (ti / 10)) 10\<rparr>]
         else [])"

definition incident_alert :: "traffic_row \<Rightarrow> alert list" where
  "incident_alert r =
     (let incidents = row_traffic_incidents r
      in if high_incident_threshold \<le> incidents
         then [\<lparr>point_name = row_point_name r, alert_type = INCIDENTS,
                severity = min incidents 10\<rparr>]
         else [])"

definition speed_alert :: "traffic_row \<Rightarrow> alert list" where
  "speed_alert r =
     (let current_speed = row_current_speed r; free_flow_speed = row_free_flow_speed r
      in if 0 < free_flow_speed \<and> 0 < current_speed
         then (if current_speed / free_flow_speed \<le> speed_reduction_threshold
               then [\<lparr>point_name = row_point_name r, alert_type = SPEED_REDUCTION,
                      severity = min (py_int ((1 - current_speed / free_flow_speed) * 10)) 10\<rparr>]
               else [])
         else [])"

definition row_alerts :: "traffic_row \<Rightarrow> alert list" where
  \<comment> \<open>The body of the loop over the recent rows: three independent rules, in this order.\<close>
  "row_alerts r = congestion_alert r @ incident_alert r @ speed_alert r"

definition detect_alerts :: "traffic_row list \<Rightarrow> alert list" where
  "detect_alerts recent_data = concat (map row_alerts recent_data)"

definition traffic_index_trend :: "real \<Rightarrow> real \<Rightarrow> real" where
  \<comment> \<open>traffic\_analyzer.py, \<open>get_traffic_trends\<close>: the index of one group, from its average
      speeds, then \<open>clip(0, 100)\<close>.\<close>
  "traffic_index_trend avg_speed avg_free_flow =
     max 0 (min 100 (100 * (1 - avg_speed / avg_free_flow)))"

subsection \<open>Persisting and dispatching alerts\<close>

record alert_row =
  ar_point_name :: string
  ar_alert_type :: alert_kind
  ar_severity :: int
  ar_timestamp :: string
  ar_notified :: int

text \<open>The settings read from the environment when the alert system is created.\<close>

record alert_config =
  email_sender :: "string option"
  email_password :: "string option"
  alert_recipients :: "string list"

text \<open>
  What one run meets outside the program: the two readings of \<open>datetime.utcnow().isoformat()\<close>
  (one in \<open>_save_alerts\<close>, one in \<open>_send_alert_email\<close> after the message has been sent), and
  whether the SMTP exchange goes through or raises.
\<close>

record alert_env =
  save_time :: string
  update_time :: string
  smtp_ok :: bool

text \<open>The \<open>traffic_alerts\<close> table, and the messages sent (each one the alerts of its body, in order).\<close>

record alert_store =
  traffic_alerts :: "alert_row list"
  outbox :: "alert list list"

definition save_alerts :: "string \<Rightarrow> alert list \<Rightarrow> alert_store \<Rightarrow> alert_store" where
  \<comment> \<open>\<open>_save_alerts\<close>: one row per alert, all with the same timestamp and \<open>notified = 0\<close>.\<close>
  "save_alerts timestamp alerts st =
     st\<lparr>traffic_alerts := traffic_alerts st @
          map (\<lambda>a. \<lparr>ar_point_name = point_name a, ar_alert_type = alert_type a,
                     ar_severity = severity a, ar_timestamp = timestamp, ar_notified = 0\<rparr>) alerts\<rparr>"

definition mark_notified :: "string \<Rightarrow> alert \<Rightarrow> alert_row list \<Rightarrow> alert_row list" where
  \<comment> \<open>\<open>UPDATE traffic_alerts SET notified = 1 WHERE point_name = ? AND alert_type = ? AND timestamp = ?\<close>\<close>
  "mark_notified timestamp a rows =
     map (\<lambda>r. if ar_point_name r = point_name a \<and> ar_alert_type r = alert_type a
                  \<and> ar_timestamp r = timestamp
               then r\<lparr>ar_notified := 1\<rparr> else r) rows"

definition sorted_alerts :: "alert list \<Rightarrow> alert list" where
  \<comment> \<open>\<open>sorted(alerts, key=lambda x: x['severity'], reverse=True)\<close>: descending, and stable.\<close>
  "sorted_alerts alerts = sort_key (\<lambda>a. - severity a) alerts"

definition send_alert_email :: "alert_env \<Rightarrow> alert list \<Rightarrow> alert_store \<Rightarrow> alert_store" where
  "send_alert_email env alerts st =
     (if alerts = [] then st
      else if smtp_ok env
      then st\<lparr>outbox := outbox st @ [sorted_alerts alerts],
              traffic_alerts := foldl (\<lambda>rows a. mark_notified (update_time env) a rows)
                                  (traffic_alerts st) alerts\<rparr>
      else st)"

definition truthy_str :: "string option \<Rightarrow> bool" where
  "truthy_str s = (case s of None \<Rightarrow> False | Some v \<Rightarrow> v \<noteq> [])"

definition process_alerts :: "alert_config \<Rightarrow> alert_env \<Rightarrow> alert list \<Rightarrow> alert_store \<Rightarrow> alert_store" where
  \<comment> \<open>The tail of \<open>check_for_alerts\<close>, lines 113 to 120.\<close>
  "process_alerts cfg env alerts st =
     (if alerts \<noteq> []
      then (let st1 = save_alerts (save_time env) alerts st
            in if truthy_str (email_sender cfg) \<and> truthy_str (email_password cfg)
                  \<and> alert_recipients cfg \<noteq> []
               then send_alert_email env alerts st1
               else st1)
      else st)"

definition check_for_alerts ::
  "alert_config \<Rightarrow> alert_env \<Rightarrow> traffic_row list \<Rightarrow> alert_store \<Rightarrow> alert list option \<times> alert_store" where
  "check_for_alerts cfg env recent_data st =
     (if recent_data = [] then (None, st)
      else (let alerts = detect_alerts recent_data
            in (Some alerts, process_alerts cfg env alerts st)))"

section \<open>The collector (traffic\_collector.py)\<close>

subsection \<open>Values and responses\<close>

text \<open>
  A value decoded from a JSON body (\<open>response.json()\<close>). \<open>JNull\<close> is Python's \<open>None\<close>;
  a number written without fraction or exponent is a Python \<open>int\<close> (\<open>JInt\<close>), any other
  number a \<open>float\<close> (\<open>JNum\<close>, a real number: the literals \<open>NaN\<close> and \<open>Infinity\<close> are
  not modelled); an object is the list of its entries.
\<close>

datatype json =
    JNull
  | JBool bool
  | JInt int
  | JNum real
  | JStr string
  | JArr "json list"
  | JObj "(string \<times> json) list"

fun truthy :: "json \<Rightarrow> bool" where
  "truthy JNull = False"
| "truthy (JBool b) = b"
| "truthy (JInt n) = (n \<noteq> 0)"
| "truthy (JNum x) = (x \<noteq> 0)"
| "truthy (JStr s) = (s \<noteq> [])"
| "truthy (JArr xs) = (xs \<noteq> [])"
| "truthy (JObj kvs) = (kvs \<noteq> [])"

datatype py_error =
  AttributeError | TypeError | KeyError | IndexError | ZeroDivisionError | InterfaceError | OverflowError

fun dict_get :: "json \<Rightarrow> string \<Rightarrow> json \<Rightarrow> py_error + json" where
  \<comment> \<open>\<open>d.get(key, default)\<close>: only a dict has the method.\<close>
  "dict_get (JObj kvs) key dflt = Inr (case map_of kvs key of None \<Rightarrow> dflt | Some v \<Rightarrow> v)"
| "dict_get _ key dflt = Inl AttributeError"

fun py_len :: "json \<Rightarrow> py_error + nat" where
  "py_len (JStr s) = Inr (length s)"
| "py_len (JArr xs) = Inr (length xs)"
| "py_len (JObj kvs) = Inr (length kvs)"
| "py_len _ = Inl TypeError"

text \<open>
  What \<open>requests.get\<close> gives back: it raises a \<open>RequestException\<close> (timeout, connection
  failure), or returns a response with a status code and a body. The body is read only
  when the status is 200, and is then taken to be the decoded JSON value.
\<close>

datatype http_outcome = RequestException | Response nat json

type_synonym bbox = "real \<times> real \<times> real \<times> real"

datatype request = Flow real real | Incident_Details bbox

text \<open>
  The upstream service: the answer to a request may depend on how many requests the
  process has made before it.
\<close>

type_synonym upstream = "nat \<Rightarrow> request \<Rightarrow> http_outcome"

datatype event = Get request | Sleep nat

record io =
  calls :: nat
  trace :: "event list"

definition http_get :: "upstream \<Rightarrow> request \<Rightarrow> io \<Rightarrow> http_outcome \<times> io" where
  "http_get up rq s = (up (calls s) rq, s\<lparr>calls := calls s + 1, trace := trace s @ [Get rq]\<rparr>)"

definition sleep :: "nat \<Rightarrow> io \<Rightarrow> io" where
  "sleep seconds s = s\<lparr>trace := trace s @ [Sleep seconds]\<rparr>"

definition MAX_RETRIES :: nat where
  "MAX_RETRIES = 3"

definition backoff :: "nat \<Rightarrow> io \<Rightarrow> io" where
  \<comment> \<open>\<open>if attempt < MAX_RETRIES - 1: time_module.sleep(1 * (attempt + 1))\<close>\<close>
  "backoff attempt s = (if attempt < MAX_RETRIES - 1 then sleep (1 * (attempt + 1)) s else s)"

subsection \<open>Incident count\<close>

definition calculate_bounding_box :: "real \<Rightarrow> real \<Rightarrow> real \<Rightarrow> py_error + bbox" where
  \<comment> \<open>The four numbers of the box, in the order of the formatted string; the division
      by \<open>111 * abs(lat) / 90\<close> raises at latitude 0.\<close>
  "calculate_bounding_box lat lon radius_km =
     (if 111 * \<bar>lat\<bar> / 90 = 0 then Inl ZeroDivisionError
      else (let lat_delta = radius_km / 111;
                lon_delta = radius_km / (111 * \<bar>lat\<bar> / 90);
                min_lat = lat - lat_delta;
                max_lat = lat + lat_delta;
                min_lon = lon - lon_delta;
                max_lon = lon + lon_delta
            in Inr (min_lon, min_lat, max_lon, max_lat)))"

fun incident_loop :: "upstream \<Rightarrow> request \<Rightarrow> nat list \<Rightarrow> io \<Rightarrow> nat \<times> io" where
  \<comment> \<open>\<open>for attempt in range(MAX_RETRIES)\<close> of \<open>_get_incident_count\<close>, over the attempts
      still to run. Leaving the loop, by exhaustion or by \<open>break\<close>, returns 0.\<close>
  "incident_loop up rq [] s = (0, s)"
| "incident_loop up rq (attempt # rest) s =
     (case http_get up rq s of
        (RequestException, s1) \<Rightarrow> incident_loop up rq rest (backoff attempt s1)
      | (Response status_code body, s1) \<Rightarrow>
          if status_code = 200
          then (case dict_get body ''incidents'' (JArr []) of
                  Inl e \<Rightarrow> (0, s1)
                | Inr incidents \<Rightarrow>
                    (case py_len incidents of
                       Inl e \<Rightarrow> (0, s1)
                     | Inr n \<Rightarrow> (n, s1)))
          else incident_loop up rq rest (backoff attempt s1))"

definition get_incident_count :: "upstream \<Rightarrow> real \<Rightarrow> real \<Rightarrow> io \<Rightarrow> (py_error + nat) \<times> io" where
  \<comment> \<open>\<open>_get_incident_count(lat, lon)\<close> with the default radius of 2 km.\<close>
  "get_incident_count up lat lon s =
     (case calculate_bounding_box lat lon 2 of
        Inl e \<Rightarrow> (Inl e, s)
      | Inr box \<Rightarrow>
          (let (n, s1) = incident_loop up (Incident_Details box) [0..<MAX_RETRIES] s
           in (Inr n, s1)))"

subsection \<open>Flow query\<close>

record route_point =
  rp_name :: string
  rp_lat :: real
  rp_lon :: real

text \<open>The dict \<open>get_traffic_data\<close> returns, which is also the row \<open>save_traffic_data\<close> inserts.\<close>

record traffic_data =
  td_point_name :: string
  td_latitude :: real
  td_longitude :: real
  td_timestamp :: string
  td_current_speed :: json
  td_free_flow_speed :: json
  td_traffic_incidents :: nat

text \<open>The clock: \<open>datetime.utcnow().isoformat()\<close>, read after the given number of requests.\<close>

type_synonym clock = "nat \<Rightarrow> string"

definition flow_record ::
  "upstream \<Rightarrow> clock \<Rightarrow> route_point \<Rightarrow> json \<Rightarrow> io \<Rightarrow> (py_error + traffic_data) \<times> io" where
  \<comment> \<open>Lines 82 to 95: what the status 200 branch does with the decoded body.\<close>
  "flow_record up now point data s =
     (case dict_get data ''flowSegmentData'' JNull of
        Inl e \<Rightarrow> (Inl e, s)
      | Inr segment \<Rightarrow>
          (case (if truthy segment then get_incident_count up (rp_lat point) (rp_lon point) s
                 else (Inr 0, s)) of
             (Inl e, s1) \<Rightarrow> (Inl e, s1)
           | (Inr traffic_incidents, s1) \<Rightarrow>
               (case dict_get data ''flowSegmentData'' (JObj []) of
                  Inl e \<Rightarrow> (Inl e, s1)
                | Inr seg \<Rightarrow>
                    (case dict_get seg ''currentSpeed'' JNull of
                       Inl e \<Rightarrow> (Inl e, s1)
                     | Inr current_speed \<Rightarrow>
                         (case dict_get seg ''freeFlowSpeed'' JNull of
                            Inl e \<Rightarrow> (Inl e, s1)
                          | Inr free_flow_speed \<Rightarrow>
                              (Inr \<lparr>td_point_name = rp_name point,
                                    td_latitude = rp_lat point,
                                    td_longitude = rp_lon point,
                                    td_timestamp = now (calls s1),
                                    td_current_speed = current_speed,
                                    td_free_flow_speed = free_flow_speed,
                                    td_traffic_incidents = traffic_incidents\<rparr>, s1))))))"

fun flow_loop ::
  "upstream \<Rightarrow> clock \<Rightarrow> route_point \<Rightarrow> nat list \<Rightarrow> io \<Rightarrow> traffic_data option \<times> io" where
  \<comment> \<open>\<open>for attempt in range(MAX_RETRIES)\<close> of \<open>get_traffic_data\<close>. Leaving the loop, by
      exhaustion or by \<open>break\<close> (any exception that is not a \<open>RequestException\<close>), returns \<open>None\<close>.\<close>
  "flow_loop up now point [] s = (None, s)"
| "flow_loop up now point (attempt # rest) s =
     (case http_get up (Flow (rp_lat point) (rp_lon point)) s of
        (RequestException, s1) \<Rightarrow> flow_loop up now point rest (backoff attempt s1)
      | (Response status_code body, s1) \<Rightarrow>
          if status_code = 200
          then (case flow_record up now point body s1 of
                  (Inl e, s2) \<Rightarrow> (None, s2)
                | (Inr d, s2) \<Rightarrow> (Some d, s2))
          else flow_loop up now point rest (backoff attempt s1))"

definition get_traffic_data ::
  "string option \<Rightarrow> upstream \<Rightarrow> clock \<Rightarrow> route_point \<Rightarrow> io \<Rightarrow> traffic_data option \<times> io" where
  "get_traffic_data api_key up now point s =
     (if \<not> truthy_str api_key then (None, s)
      else flow_loop up now point [0..<MAX_RETRIES] s)"

subsection \<open>Persisting samples\<close>

fun sql_value :: "json \<Rightarrow> bool" where
  \<comment> \<open>The values sqlite3 binds to a parameter: None, text, floats, and integers that fit
      in 64 bits (a larger \<open>int\<close> raises \<open>OverflowError\<close>); not a list or a dict.\<close>
  "sql_value (JArr xs) = False"
| "sql_value (JObj kvs) = False"
| "sql_value (JInt n) = (- (2 ^ 63) \<le> n \<and> n < 2 ^ 63)"
| "sql_value _ = True"

fun bind_error :: "json \<Rightarrow> py_error" where
  \<comment> \<open>What binding a value that is not an \<open>sql_value\<close> raises.\<close>
  "bind_error (JInt n) = OverflowError"
| "bind_error _ = InterfaceError"

definition save_traffic_data :: "traffic_data option \<Rightarrow> traffic_data list \<Rightarrow> py_error + traffic_data list" where
  \<comment> \<open>The table is the list of its rows, in insertion order. A value that cannot be
      bound makes \<open>execute\<close> raise, and nothing is inserted.\<close>
  "save_traffic_data data table =
     (case data of
        None \<Rightarrow> Inr table
      | Some d \<Rightarrow>
          if sql_value (td_current_speed d) \<and> sql_value (td_free_flow_speed d)
          then Inr (table @ [d])
          else if sql_value (td_current_speed d)
          then Inl (bind_error (td_free_flow_speed d))
          else Inl (bind_error (td_current_speed d)))"

record collector =
  net :: io
  traffic_table :: "traffic_data list"
  successful_points :: nat

definition collect_point ::
  "string option \<Rightarrow> upstream \<Rightarrow> clock \<Rightarrow> route_point \<Rightarrow> collector \<Rightarrow> collector" where
  \<comment> \<open>The body of the loop of \<open>collect_data\<close>; an exception skips the rest of the body.\<close>
  "collect_point api_key up now point c =
     (case get_traffic_data api_key up now point (net c) of
        (None, s1) \<Rightarrow> c\<lparr>net := sleep 1 s1\<rparr>
      | (Some d, s1) \<Rightarrow>
          (case save_traffic_data (Some d) (traffic_table c) of
             Inl e \<Rightarrow> c\<lparr>net := s1\<rparr>
           | Inr table \<Rightarrow>
               c\<lparr>net := sleep 1 s1, traffic_table := table,
                 successful_points := successful_points c + 1\<rparr>))"

definition collect_data ::
  "string option \<Rightarrow> upstream \<Rightarrow> clock \<Rightarrow> route_point list \<Rightarrow> io \<Rightarrow> traffic_data list \<Rightarrow> collector" where
  \<comment> \<open>One run over the monitored points (\<open>MONITOR_POINTS\<close>), from the given table.\<close>
  "collect_data api_key up now points s table =
     foldl (\<lambda>c point. collect_point api_key up now point c)
       \<lparr>net = s, traffic_table = table, successful_points = 0\<rparr> points"

fun failed :: "http_outcome \<Rightarrow> bool" where
  \<comment> \<open>An attempt that the retry loops count as failed: a transport failure or a status other than 200.\<close>
  "failed RequestException = True"
| "failed (Response status_code body) = (status_code \<noteq> 200)"

section \<open>Route evaluation (app.py)\<close>

subsection \<open>The static schedule\<close>

text \<open>
  The four GTFS tables, each the list of its rows. A stop id is what \<open>read_csv\<close> makes of
  the column: an integer when the column is numeric, a string otherwise. A coordinate
  is \<open>None\<close> when \<open>float(...)\<close> rejects the cell.
\<close>

datatype ident = IntId int | StrId string

fun id_truthy :: "ident \<Rightarrow> bool" where
  "id_truthy (IntId n) = (n \<noteq> 0)"
| "id_truthy (StrId s) = (s \<noteq> [])"

record stop_row =
  stop_id :: ident
  stop_name :: string
  stop_lat :: "real option"
  stop_lon :: "real option"

record 't stop_time_row =
  st_trip_id :: 't
  st_stop_id :: ident
  stop_sequence :: int

record ('t, 'r) trip_row =
  tr_trip_id :: 't
  tr_route_id :: 'r

record 'r route_row =
  rt_route_id :: 'r
  route_long_name :: string

record ('t, 'r) gtfs =
  stops_df :: "stop_row list"
  stop_times_df :: "'t stop_time_row list"
  trips_df :: "('t, 'r) trip_row list"
  routes_df :: "'r route_row list"

definition lower_char :: "char \<Rightarrow> char" where
  "lower_char c =
     (case map_of (zip ''ABCDEFGHIJKLMNOPQRSTUVWXYZ'' ''abcdefghijklmnopqrstuvwxyz'') c of
        None \<Rightarrow> c
      | Some l \<Rightarrow> l)"

definition lower :: "string \<Rightarrow> string" where
  \<comment> \<open>\<open>str.lower()\<close>, on ASCII text.\<close>
  "lower s = map lower_char s"

definition get_stop_id_by_name :: "stop_row list \<Rightarrow> string \<Rightarrow> ident option" where
  "get_stop_id_by_name stops name =
     (case filter (\<lambda>s. lower (stop_name s) = lower name) stops of
        [] \<Rightarrow> None
      | s # rest \<Rightarrow> Some (stop_id s))"

definition trip_groups :: "('t::linorder) stop_time_row list \<Rightarrow> 't list" where
  \<comment> \<open>The keys of \<open>groupby('trip_id')\<close>: each trip once, in ascending order.\<close>
  "trip_groups stop_times = sort (remdups (map st_trip_id stop_times))"

definition trip_rows :: "'t stop_time_row list \<Rightarrow> 't \<Rightarrow> 't stop_time_row list" where
  \<comment> \<open>The rows of one trip, \<open>sort_values('stop_sequence')\<close>.\<close>
  "trip_rows stop_times t = sort_key stop_sequence (filter (\<lambda>r. st_trip_id r = t) stop_times)"

fun py_index :: "'a list \<Rightarrow> 'a \<Rightarrow> nat option" where
  \<comment> \<open>\<open>list.index(x)\<close>: the first position of \<open>x\<close>; \<open>None\<close> stands for its \<open>ValueError\<close>.\<close>
  "py_index [] x = None"
| "py_index (y # ys) x = (if y = x then Some 0 else map_option Suc (py_index ys x))"

definition source_before_dest :: "ident list \<Rightarrow> ident \<Rightarrow> ident \<Rightarrow> bool" where
  \<comment> \<open>Lines 96 and 97: both ids in the sequence, and \<open>index(source) < index(dest)\<close>.\<close>
  "source_before_dest stop_ids source_id dest_id =
     (if source_id \<in> set stop_ids \<and> dest_id \<in> set stop_ids
      then (case (py_index stop_ids source_id, py_index stop_ids dest_id) of
              (Some i, Some j) \<Rightarrow> i < j
            | _ \<Rightarrow> False)
      else False)"

definition find_routes_between :: "('t::linorder, 'r) gtfs \<Rightarrow> string \<Rightarrow> string \<Rightarrow> 't list" where
  "find_routes_between g source_name dest_name =
     (case (get_stop_id_by_name (stops_df g) source_name,
            get_stop_id_by_name (stops_df g) dest_name) of
        (Some source_id, Some dest_id) \<Rightarrow>
          if id_truthy source_id \<and> id_truthy dest_id
          then filter (\<lambda>t. source_before_dest (map st_stop_id (trip_rows (stop_times_df g) t))
                             source_id dest_id)
                 (trip_groups (stop_times_df g))
          else []
      | _ \<Rightarrow> [])"

record stop_info =
  si_stop_id :: ident
  si_stop_name :: string
  lat :: real
  lon :: real

definition stop_entry :: "stop_row list \<Rightarrow> 't stop_time_row \<Rightarrow> stop_info list" where
  \<comment> \<open>The body of the loop of \<open>get_ordered_stops_for_trip\<close>: no entry when the stop is
      unknown or a coordinate is not a number.\<close>
  "stop_entry stops row =
     (case filter (\<lambda>s. stop_id s = st_stop_id row) stops of
        [] \<Rightarrow> []
      | stop # rest \<Rightarrow>
          (case (stop_lat stop, stop_lon stop) of
             (Some la, Some lo) \<Rightarrow>
               [\<lparr>si_stop_id = st_stop_id row, si_stop_name = stop_name stop, lat = la, lon = lo\<rparr>]
           | _ \<Rightarrow> []))"

definition get_ordered_stops_for_trip :: "('t, 'r) gtfs \<Rightarrow> 't \<Rightarrow> stop_info list" where
  "get_ordered_stops_for_trip g trip_id =
     concat (map (stop_entry (stops_df g)) (trip_rows (stop_times_df g) trip_id))"

subsection \<open>The congestion cache\<close>

fun digits :: "nat \<Rightarrow> string" where
  \<comment> \<open>The decimal digits of a natural number.\<close>
  "digits n =
     (if n < 10 then [''0123456789'' ! n]
      else digits (n div 10) @ [''0123456789'' ! (n mod 10)])"

declare digits.simps [simp del]

definition fraction4 :: "nat \<Rightarrow> string" where
  \<comment> \<open>The digits after the point for a number of ten-thousandths below one: four digits,
      trailing zeros dropped, at least one digit kept.\<close>
  "fraction4 k =
     (let ds = digits k;
          padded = replicate (4 - length ds) (CHR ''0'') @ ds;
          cut = rev (dropWhile (\<lambda>c. c = CHR ''0'') (rev padded))
      in if cut = [] then ''0'' else cut)"

definition float_str :: "real \<Rightarrow> string" where
  \<comment> \<open>How an f-string prints a float that \<open>round(x, 4)\<close> returned: fixed notation, the
      shortest digits (the range of coordinates needs no exponent).\<close>
  "float_str x =
     (let k = nat \<lfloor>\<bar>x\<bar> * 10000\<rfloor>
      in (if x < 0 then ''-'' else []) @ digits (k div 10000) @ ''.'' @ fraction4 (k mod 10000))"

definition cache_key :: "real \<Rightarrow> real \<Rightarrow> string" where
  \<comment> \<open>\<open>f"{round(lat, 4)}_{round(lon, 4)}"\<close>\<close>
  "cache_key la lo = float_str (py_round la 4) @ ''_'' @ float_str (py_round lo 4)"

fun py_getitem :: "json \<Rightarrow> string \<Rightarrow> py_error + json" where
  \<comment> \<open>\<open>d[key]\<close> with a string key.\<close>
  "py_getitem (JObj kvs) key = (case map_of kvs key of None \<Rightarrow> Inl KeyError | Some v \<Rightarrow> Inr v)"
| "py_getitem _ key = Inl TypeError"

text \<open>
  The state of the process: the cache, the two counters, and the number of requests
  sent so far (what the upstream answers may depend on). \<open>cache_file\<close> is the snapshot
  last written to \<open>congestion_cache.json\<close>.
\<close>

type_synonym cache = "string \<rightharpoonup> json \<times> json"

record app_state =
  congestion_cache :: cache
  cache_hits :: nat
  api_calls :: nat
  requests_sent :: nat
  cache_file :: "cache option"

definition flow_speeds :: "json \<Rightarrow> py_error + json \<times> json" where
  \<comment> \<open>Lines 143 and 144.\<close>
  "flow_speeds data =
     (case py_getitem data ''flowSegmentData'' of
        Inl e \<Rightarrow> Inl e
      | Inr seg \<Rightarrow>
          (case py_getitem seg ''currentSpeed'' of
             Inl e \<Rightarrow> Inl e
           | Inr cs \<Rightarrow>
               (case py_getitem seg ''freeFlowSpeed'' of
                  Inl e \<Rightarrow> Inl e
                | Inr ffs \<Rightarrow> Inr (cs, ffs))))"

definition get_congestion :: "upstream \<Rightarrow> real \<Rightarrow> real \<Rightarrow> app_state \<Rightarrow> (json \<times> json) \<times> app_state" where
  \<comment> \<open>Every exception inside the \<open>try\<close> ends in \<open>return None, None\<close>.\<close>
  "get_congestion up la lo w =
     (let key = cache_key la lo
      in case congestion_cache w key of
           Some entry \<Rightarrow> (entry, w\<lparr>cache_hits := cache_hits w + 1\<rparr>)
         | None \<Rightarrow>
             (let w1 = w\<lparr>requests_sent := requests_sent w + 1\<rparr>
              in case up (requests_sent w) (Flow la lo) of
                   RequestException \<Rightarrow> ((JNull, JNull), w1)
                 | Response status_code data \<Rightarrow>
                     if status_code = 200
                     then (let w2 = w1\<lparr>api_calls := api_calls w1 + 1\<rparr>
                           in case flow_speeds data of
                                Inl e \<Rightarrow> ((JNull, JNull), w2)
                              | Inr (cs, ffs) \<Rightarrow>
                                  ((cs, ffs),
                                   w2\<lparr>congestion_cache := (congestion_cache w2)(key \<mapsto> (cs, ffs))\<rparr>))
                     else ((JNull, JNull), w1)))"

subsection \<open>Scoring trips\<close>

fun as_number :: "json \<Rightarrow> real option" where
  \<comment> \<open>The values Python computes with as numbers; a bool counts as 0 or 1.\<close>
  "as_number (JNum x) = Some x"
| "as_number (JInt n) = Some (of_int n)"
| "as_number (JBool b) = Some (if b then 1 else 0)"
| "as_number _ = None"

definition py_truediv :: "json \<Rightarrow> json \<Rightarrow> py_error + real" where
  "py_truediv a b =
     (case (as_number a, as_number b) of
        (Some x, Some y) \<Rightarrow> if y = 0 then Inl ZeroDivisionError else Inr (x / y)
      | _ \<Rightarrow> Inl TypeError)"

text \<open>
  An estimated time is kept as the minutes added to the base time (the text
  \<open>strftime\<close> prints is a function of it); \<open>None\<close> is the entry \<open>"N/A"\<close>.
\<close>

fun get_estimated_times ::
  "upstream \<Rightarrow> stop_info list \<Rightarrow> real \<Rightarrow> app_state \<Rightarrow> (py_error + real option list) \<times> app_state" where
  "get_estimated_times up [] current_time w = (Inr [], w)"
| "get_estimated_times up (stop # rest) current_time w =
     (case get_congestion up (lat stop) (lon stop) w of
        ((current_speed, free_speed), w1) \<Rightarrow>
          if truthy current_speed \<and> truthy free_speed
          then (case py_truediv current_speed free_speed of
                  Inl e \<Rightarrow> (Inl e, w1)
                | Inr q \<Rightarrow>
                    (let delay_factor = (1 - q) * 1.5;
                         t = current_time + delay_factor
                     in case get_estimated_times up rest t w1 of
                          (Inl e, w2) \<Rightarrow> (Inl e, w2)
                        | (Inr eta_list, w2) \<Rightarrow> (Inr (Some t # eta_list), w2)))
          else (case get_estimated_times up rest current_time w1 of
                  (Inl e, w2) \<Rightarrow> (Inl e, w2)
                | (Inr eta_list, w2) \<Rightarrow> (Inr (None # eta_list), w2)))"

definition stop_contribution :: "json \<Rightarrow> json \<Rightarrow> py_error + (real \<times> real) option" where
  \<comment> \<open>Lines 170 to 174: the congestion value and the delay a stop adds, \<open>None\<close> when the
      condition leaves the stop out.\<close>
  "stop_contribution current_speed free_speed =
     (if truthy current_speed \<and> truthy free_speed
      then (case as_number free_speed of
              None \<Rightarrow> Inl TypeError
            | Some f \<Rightarrow>
                if 0 < f
                then (case py_truediv current_speed free_speed of
                        Inl e \<Rightarrow> Inl e
                      | Inr q \<Rightarrow> Inr (Some (max 0 (100 - q * 100), (1 - q) * 1.5)))
                else Inr None)
      else Inr None)"

fun stops_loop ::
  "upstream \<Rightarrow> stop_info list \<Rightarrow> real \<Rightarrow> real list \<Rightarrow> app_state
   \<Rightarrow> (py_error + real \<times> real list) \<times> app_state" where
  \<comment> \<open>The loop over the stops of a trip, with its two accumulators.\<close>
  "stops_loop up [] total_delay congestion_values w = (Inr (total_delay, congestion_values), w)"
| "stops_loop up (stop # rest) total_delay congestion_values w =
     (case get_congestion up (lat stop) (lon stop) w of
        ((current_speed, free_speed), w1) \<Rightarrow>
          (case stop_contribution current_speed free_speed of
             Inl e \<Rightarrow> (Inl e, w1)
           | Inr None \<Rightarrow> stops_loop up rest total_delay congestion_values w1
           | Inr (Some (congestion, delay)) \<Rightarrow>
               stops_loop up rest (total_delay + delay) (congestion_values @ [congestion]) w1))"

record 't route_score =
  route_name :: string
  trip_id :: 't
  stops :: nat
  avg_congestion :: real
  est_delay_min :: real
  coordinates :: "(real \<times> real) list"
  congestion_values :: "real list"
  etas :: "real option list"

definition score_trip ::
  "('t, 'r) gtfs \<Rightarrow> upstream \<Rightarrow> 't \<Rightarrow> app_state \<Rightarrow> (py_error + 't route_score option) \<times> app_state" where
  \<comment> \<open>The body of the loop over the trips; \<open>.iloc[0]\<close> on an empty selection raises \<open>IndexError\<close>.\<close>
  "score_trip g up t w =
     (let stop_list = get_ordered_stops_for_trip g t
      in case get_estimated_times up stop_list 0 w of
           (Inl e, w1) \<Rightarrow> (Inl e, w1)
         | (Inr eta_list, w1) \<Rightarrow>
             (case stops_loop up stop_list 0 [] w1 of
                (Inl e, w2) \<Rightarrow> (Inl e, w2)
              | (Inr (total_delay, values), w2) \<Rightarrow>
                  if values \<noteq> []
                  then (case filter (\<lambda>r. tr_trip_id r = t) (trips_df g) of
                          [] \<Rightarrow> (Inl IndexError, w2)
                        | tr # trs \<Rightarrow>
                            (case filter (\<lambda>r. rt_route_id r = tr_route_id tr) (routes_df g) of
                               [] \<Rightarrow> (Inl IndexError, w2)
                             | rt # rts \<Rightarrow>
                                 (Inr (Some \<lparr>route_name = route_long_name rt,
                                             trip_id = t,
                                             stops = length stop_list,
                                             avg_congestion =
                                               py_round (sum_list values / real (length values)) 2,
                                             est_delay_min = py_round total_delay 2,
                                             coordinates = map (\<lambda>s. (lat s, lon s)) stop_list,
                                             congestion_values = values,
                                             etas = eta_list\<rparr>), w2)))
                  else (Inr None, w2)))"

fun score_trips ::
  "('t, 'r) gtfs \<Rightarrow> upstream \<Rightarrow> 't list \<Rightarrow> 't route_score list \<Rightarrow> app_state
   \<Rightarrow> (py_error + 't route_score list) \<times> app_state" where
  \<comment> \<open>\<open>for trip_id in trip_ids\<close>, appending to \<open>route_scores\<close>.\<close>
  "score_trips g up [] route_scores w = (Inr route_scores, w)"
| "score_trips g up (t # rest) route_scores w =
     (case score_trip g up t w of
        (Inl e, w1) \<Rightarrow> (Inl e, w1)
      | (Inr None, w1) \<Rightarrow> score_trips g up rest route_scores w1
      | (Inr (Some r), w1) \<Rightarrow> score_trips g up rest (route_scores @ [r]) w1)"

definition evaluate_routes ::
  "('t, 'r) gtfs \<Rightarrow> upstream \<Rightarrow> 't list \<Rightarrow> app_state \<Rightarrow> (py_error + 't route_score list) \<times> app_state" where
  \<comment> \<open>After the loop the cache is written to its file, and the scores are returned
      \<open>sorted(..., key=est_delay_min)\<close>, which is stable.\<close>
  "evaluate_routes g up trip_ids w =
     (case score_trips g up trip_ids [] w of
        (Inl e, w1) \<Rightarrow> (Inl e, w1)
      | (Inr route_scores, w1) \<Rightarrow>
          (Inr (sort_key est_delay_min route_scores),
           w1\<lparr>cache_file := Some (congestion_cache w1)\<rparr>))"



subsection \<open>A schedule to evaluate on\<close>

text \<open>
  The state of a process started without a cache file, and the route scenario of the
  specification: stops A, B and C, a trip 1 through all three, a trip 3 from C to B and a
  trip 4 from A to C, against an upstream that reports a free-flow speed of 30 at every
  stop and a current speed of 30 everywhere but at B.
\<close>

definition initial_state :: app_state where
  "initial_state =
     \<lparr>congestion_cache = Map.empty, cache_hits = 0, api_calls = 0, requests_sent = 0,
      cache_file = None\<rparr>"

definition example_schedule :: "(int, int) gtfs" where
  "example_schedule =
     \<lparr>stops_df =
        [\<lparr>stop_id = StrId ''A'', stop_name = ''A'', stop_lat = Some 12, stop_lon = Some 77\<rparr>,
         \<lparr>stop_id = StrId ''B'', stop_name = ''B'', stop_lat = Some 13, stop_lon = Some 77\<rparr>,
         \<lparr>stop_id = StrId ''C'', stop_name = ''C'', stop_lat = Some 13, stop_lon = Some 78\<rparr>],
      stop_times_df =
        [\<lparr>st_trip_id = 1, st_stop_id = StrId ''A'', stop_sequence = 1\<rparr>,
         \<lparr>st_trip_id = 1, st_stop_id = StrId ''B'', stop_sequence = 2\<rparr>,
         \<lparr>st_trip_id = 1, st_stop_id = StrId ''C'', stop_sequence = 3\<rparr>,
         \<lparr>st_trip_id = 3, st_stop_id = StrId ''C'', stop_sequence = 1\<rparr>,
         \<lparr>st_trip_id = 3, st_stop_id = StrId ''B'', stop_sequence = 2\<rparr>,
         \<lparr>st_trip_id = 4, st_stop_id = StrId ''A'', stop_sequence = 1\<rparr>,
         \<lparr>st_trip_id = 4, st_stop_id = StrId ''C'', stop_sequence = 2\<rparr>],
      trips_df =
        [\<lparr>tr_trip_id = 1, tr_route_id = 10\<rparr>, \<lparr>tr_trip_id = 3, tr_route_id = 11\<rparr>,
         \<lparr>tr_trip_id = 4, tr_route_id = 12\<rparr>],
      routes_df =
        [\<lparr>rt_route_id = 10, route_long_name = ''A - C''\<rparr>,
         \<lparr>rt_route_id = 11, route_long_name = ''C - B''\<rparr>,
         \<lparr>rt_route_id = 12, route_long_name = ''A - C express''\<rparr>]\<rparr>"

definition example_upstream :: "real \<Rightarrow> upstream" where
  "example_upstream slow =
     (\<lambda>n rq. case rq of
                Flow la lo \<Rightarrow>
                  Response 200 (JObj [(''flowSegmentData'',
                    JObj [(''currentSpeed'', JNum (if la = 13 \<and> lo = 77 then slow else 30)),
                          (''freeFlowSpeed'', JNum 30)])])
              | Incident_Details box \<Rightarrow> RequestException)"

section \<open>Properties of the alert engine\<close>

lemma traffic_index_bounds: "0 \<le> traffic_index c f \<and> traffic_index c f \<le> 100"
  by (simp add: traffic_index_def)

lemma traffic_index_free_flow: "f \<le> c \<Longrightarrow> traffic_index c f = 0"
proof (cases "0 < f \<and> 0 < c")
  case True
  assume "f \<le> c"
  with True have "1 \<le> c / f" by simp
  then have "100 * (1 - c / f) \<le> 0" by simp
  then show ?thesis using True by (simp add: traffic_index_def)
next
  case False
  then show ?thesis by (auto simp: traffic_index_def)
qed

lemma traffic_index_trend_bounds:
  "0 \<le> traffic_index_trend c f \<and> traffic_index_trend c f \<le> 100"
  by (simp add: traffic_index_trend_def)

lemma traffic_index_trend_free_flow:
  assumes "0 < f" "f \<le> c"
  shows "traffic_index_trend c f = 0"
proof -
  from assms have "1 \<le> c / f" by simp
  then have "100 * (1 - c / f) \<le> 0" by simp
  then show ?thesis by (simp add: traffic_index_trend_def)
qed

text \<open>
  C7. For all current and free-flow speeds with a positive free-flow speed, the traffic
  index lies in [0, 100] and is 0 whenever the current speed is at least the free-flow
  speed. This holds for the index of the alert engine and for the clipped index of
  \<open>get_traffic_trends\<close>.
\<close>

theorem traffic_index_clamped:
  assumes "0 < free_flow_speed"
  shows "0 \<le> traffic_index current_speed free_flow_speed
       \<and> traffic_index current_speed free_flow_speed \<le> 100
       \<and> (free_flow_speed \<le> current_speed \<longrightarrow> traffic_index current_speed free_flow_speed = 0)
       \<and> 0 \<le> traffic_index_trend current_speed free_flow_speed
       \<and> traffic_index_trend current_speed free_flow_speed \<le> 100
       \<and> (free_flow_speed \<le> current_speed \<longrightarrow> traffic_index_trend current_speed free_flow_speed = 0)"
  using assms traffic_index_bounds traffic_index_free_flow
    traffic_index_trend_bounds traffic_index_trend_free_flow by blast

theorem traffic_index_clamped_witness:
  "(0::real) < 40 \<and> (40::real) \<le> 45
   \<and> traffic_index 45 40 = 0 \<and> traffic_index_trend 45 40 = 0
   \<and> 0 \<le> traffic_index 20 40 \<and> traffic_index 20 40 \<le> 100"
  using traffic_index_clamped [of 40 45] traffic_index_clamped [of 40 20] by simp

subsection \<open>Trigger rules\<close>

lemma congestion_raised:
  "(CONGESTION \<in> alert_type ` set (row_alerts r)) =
   (80 \<le> traffic_index (row_current_speed r) (row_free_flow_speed r))"
  by (auto simp: row_alerts_def congestion_alert_def incident_alert_def speed_alert_def
      Let_def severe_congestion_threshold_def)

lemma incidents_raised:
  "(INCIDENTS \<in> alert_type ` set (row_alerts r)) = (3 \<le> row_traffic_incidents r)"
  by (auto simp: row_alerts_def congestion_alert_def incident_alert_def speed_alert_def
      Let_def high_incident_threshold_def)

lemma speed_raised:
  "(SPEED_REDUCTION \<in> alert_type ` set (row_alerts r)) =
   (0 < row_free_flow_speed r \<and> 0 < row_current_speed r
    \<and> row_current_speed r / row_free_flow_speed r \<le> 4 / 10)"
  by (auto simp: row_alerts_def congestion_alert_def incident_alert_def speed_alert_def
      Let_def speed_reduction_threshold_def)

lemma congestion_severity:
  "map severity (congestion_alert r) =
   (if 80 \<le> traffic_index (row_current_speed r) (row_free_flow_speed r)
    then [min \<lfloor>traffic_index (row_current_speed r) (row_free_flow_speed r) / 10\<rfloor> 10]
    else [])"
proof -
  have "0 \<le> traffic_index (row_current_speed r) (row_free_flow_speed r) / 10"
    using traffic_index_bounds [of "row_current_speed r" "row_free_flow_speed r"] by simp
  then show ?thesis
    by (simp add: congestion_alert_def Let_def severe_congestion_threshold_def py_int_def)
qed

lemma congestion_severity_range: "severity ` set (congestion_alert r) \<subseteq> {8..10}"
proof -
  let ?ti = "traffic_index (row_current_speed r) (row_free_flow_speed r)"
  have "8 \<le> min \<lfloor>?ti / 10\<rfloor> 10" if "80 \<le> ?ti"
  proof -
    from that have "(8::real) \<le> ?ti / 10" by simp
    then have "8 \<le> \<lfloor>?ti / 10\<rfloor>" by (simp add: le_floor_iff)
    then show ?thesis by simp
  qed
  then show ?thesis
    using congestion_severity [of r] unfolding set_map [symmetric]
    by (auto split: if_splits)
qed

lemma incident_severity_range: "severity ` set (incident_alert r) \<subseteq> {3..10}"
  by (auto simp: incident_alert_def Let_def high_incident_threshold_def)

lemma speed_severity_floor:
  fixes q :: real
  assumes "0 < q" "q \<le> 4 / 10"
  shows "6 \<le> py_int ((1 - q) * 10)"
proof -
  from assms have "(6::real) \<le> (1 - q) * 10" by argo
  then have "6 \<le> \<lfloor>(1 - q) * 10\<rfloor>" "0 \<le> (1 - q) * 10"
    by (simp_all add: le_floor_iff)
  then show ?thesis by (simp add: py_int_def)
qed

lemma speed_severity_range: "severity ` set (speed_alert r) \<subseteq> {6..10}"
  using speed_severity_floor [of "row_current_speed r / row_free_flow_speed r"]
  by (auto simp: speed_alert_def Let_def speed_reduction_threshold_def)

lemma severity_range: "severity ` set (row_alerts r) \<subseteq> {1..10}"
proof -
  have "severity ` set (row_alerts r) \<subseteq> {8..10} \<union> {3..10} \<union> {6..10}"
    using congestion_severity_range [of r] incident_severity_range [of r]
      speed_severity_range [of r]
    by (simp add: row_alerts_def image_Un) blast
  also have "\<dots> \<subseteq> {1..10::int}" by auto
  finally show ?thesis .
qed

lemma slow_sample_alerts:
  "map (\<lambda>a. (alert_type a, severity a))
     (row_alerts \<lparr>row_point_name = n, row_current_speed = 10, row_free_flow_speed = 50,
                  row_traffic_incidents = 0\<rparr>)
   = [(CONGESTION, 8), (SPEED_REDUCTION, 8)]"
  by (simp add: row_alerts_def congestion_alert_def incident_alert_def speed_alert_def
      Let_def speed_reduction_threshold_def traffic_index_def high_incident_threshold_def
      py_int_def severe_congestion_threshold_def)

lemma free_sample_alerts:
  "CONGESTION \<notin> alert_type ` set (row_alerts (r\<lparr>row_current_speed := 9 / 10 * f,
                                                  row_free_flow_speed := f\<rparr>))
   \<and> SPEED_REDUCTION \<notin> alert_type ` set (row_alerts (r\<lparr>row_current_speed := 9 / 10 * f,
                                                         row_free_flow_speed := f\<rparr>))"
  by (simp add: congestion_raised speed_raised traffic_index_def)

text \<open>
  C6, as stated, fails. A standstill sample (current speed 0, free-flow speed 50) has
  ratio 0, which is at most 0.4, and the clamped value of \<open>100 * (1 - 0 / 50)\<close> is 100,
  which is at least 80; yet the engine raises no alert for it, because both rules are
  guarded by \<open>current_speed > 0\<close>. And at current speed 7.5 against 50 the index is 85:
  the CONGESTION severity is 8, not \<open>min(85 / 10, 10) = 8.5\<close>.
\<close>

theorem standstill_raises_no_alert:
  "(0::real) / 50 \<le> 4 / 10
   \<and> (80::real) \<le> max 0 (min 100 (100 * (1 - 0 / 50)))
   \<and> row_alerts \<lparr>row_point_name = ''MG Road'', row_current_speed = 0,
                  row_free_flow_speed = 50, row_traffic_incidents = 0\<rparr> = []
   \<and> map severity (congestion_alert \<lparr>row_point_name = ''MG Road'', row_current_speed = 15 / 2,
                                      row_free_flow_speed = 50, row_traffic_incidents = 0\<rparr>) = [8]
   \<and> min (traffic_index (15 / 2) 50 / 10) 10 = 17 / 2"
  by (simp add: row_alerts_def congestion_alert_def incident_alert_def speed_alert_def
      Let_def speed_reduction_threshold_def traffic_index_def high_incident_threshold_def
      py_int_def severe_congestion_threshold_def)

text \<open>
  C6, amended. For every recent sample: the traffic index is the clamped value of
  \<open>100 * (1 - currentSpeed / freeFlowSpeed)\<close> when both speeds are positive and 0
  otherwise; a CONGESTION alert is raised exactly when this index is at least 80, with
  severity \<open>min(floor(index / 10), 10)\<close>; an INCIDENTS alert exactly when the incident
  count is at least 3; a SPEED\_REDUCTION alert exactly when both speeds are positive and
  their ratio is at most 0.4. A sample with speeds 10 and 50 raises CONGESTION and
  SPEED\_REDUCTION, a sample with ratio 0.9 raises neither, and the severity of every
  alert raised lies in [1, 10].
\<close>

theorem alert_rules:
  "traffic_index (row_current_speed r) (row_free_flow_speed r) =
     (if 0 < row_free_flow_speed r \<and> 0 < row_current_speed r
      then max 0 (min 100 (100 * (1 - row_current_speed r / row_free_flow_speed r)))
      else 0)
   \<and> (CONGESTION \<in> alert_type ` set (row_alerts r)) =
       (80 \<le> traffic_index (row_current_speed r) (row_free_flow_speed r))
   \<and> map severity (congestion_alert r) =
       (if 80 \<le> traffic_index (row_current_speed r) (row_free_flow_speed r)
        then [min \<lfloor>traffic_index (row_current_speed r) (row_free_flow_speed r) / 10\<rfloor> 10]
        else [])
   \<and> (INCIDENTS \<in> alert_type ` set (row_alerts r)) = (3 \<le> row_traffic_incidents r)
   \<and> (SPEED_REDUCTION \<in> alert_type ` set (row_alerts r)) =
       (0 < row_free_flow_speed r \<and> 0 < row_current_speed r
        \<and> row_current_speed r / row_free_flow_speed r \<le> 4 / 10)
   \<and> map (\<lambda>a. (alert_type a, severity a))
        (row_alerts \<lparr>row_point_name = n, row_current_speed = 10, row_free_flow_speed = 50,
                     row_traffic_incidents = 0\<rparr>)
       = [(CONGESTION, 8), (SPEED_REDUCTION, 8)]
   \<and> CONGESTION \<notin> alert_type ` set (row_alerts (r\<lparr>row_current_speed := 9 / 10 * f,
                                                    row_free_flow_speed := f\<rparr>))
   \<and> SPEED_REDUCTION \<notin> alert_type ` set (row_alerts (r\<lparr>row_current_speed := 9 / 10 * f,
                                                         row_free_flow_speed := f\<rparr>))
   \<and> severity ` set (row_alerts r) \<subseteq> {1..10}"
  using congestion_raised [of r] congestion_severity [of r] incidents_raised [of r]
    speed_raised [of r] slow_sample_alerts [of n] free_sample_alerts [of f r]
    severity_range [of r]
  by (simp add: traffic_index_def)

subsection \<open>The notified flag\<close>

lemma mark_notified_other_time:
  assumes "timestamp \<notin> ar_timestamp ` set rows"
  shows "mark_notified timestamp a rows = rows"
  using assms unfolding mark_notified_def by (intro map_idI) auto

lemma mark_all_other_time:
  assumes "timestamp \<notin> ar_timestamp ` set rows"
  shows "foldl (\<lambda>rows a. mark_notified timestamp a rows) rows alerts = rows"
  using assms by (induction alerts) (simp_all add: mark_notified_other_time)

text \<open>
  Whenever the clock has moved between the insert and the update (and no older row
  carries the later reading), the update matches none of the rows just saved: the table
  after the run is the table after the insert, every new row with \<open>notified = 0\<close>,
  whether or not the message was sent.
\<close>

lemma update_misses_saved_rows:
  assumes "alerts \<noteq> []"
    and "update_time env \<noteq> save_time env"
    and "update_time env \<notin> ar_timestamp ` set (traffic_alerts st)"
  shows "traffic_alerts (process_alerts cfg env alerts st) =
         traffic_alerts st @
         map (\<lambda>a. \<lparr>ar_point_name = point_name a, ar_alert_type = alert_type a,
                    ar_severity = severity a, ar_timestamp = save_time env, ar_notified = 0\<rparr>) alerts"
proof -
  let ?st1 = "save_alerts (save_time env) alerts st"
  have "update_time env \<notin> ar_timestamp ` set (traffic_alerts ?st1)"
    using assms(2,3) by (auto simp: save_alerts_def)
  then have "traffic_alerts (send_alert_email env alerts ?st1) = traffic_alerts ?st1"
    by (simp add: send_alert_email_def mark_all_other_time)
  then show ?thesis using assms(1)
    by (simp add: process_alerts_def Let_def) (simp add: save_alerts_def)
qed

text \<open>
  C1 (the code breaks it). One run with a configured sender, a sample that raises two
  alerts, the insert at 08:00:00.120000 and the update, after the message has been sent,
  at 08:00:01.480000: the message is in the outbox, and both persisted rows still have
  \<open>notified = 0\<close>. The update looks for the timestamp it has just read, not for the one
  the rows were saved with.
\<close>

theorem notified_flag_stays_unset:
  "check_for_alerts
     \<lparr>email_sender = Some ''ops@example.org'', email_password = Some ''secret'',
      alert_recipients = [''duty@example.org'']\<rparr>
     \<lparr>save_time = ''2024-05-01T08:00:00.120000'', update_time = ''2024-05-01T08:00:01.480000'',
      smtp_ok = True\<rparr>
     [\<lparr>row_point_name = ''MG Road'', row_current_speed = 10, row_free_flow_speed = 50,
       row_traffic_incidents = 0\<rparr>]
     \<lparr>traffic_alerts = [], outbox = []\<rparr>
   = (Some [\<lparr>point_name = ''MG Road'', alert_type = CONGESTION, severity = 8\<rparr>,
            \<lparr>point_name = ''MG Road'', alert_type = SPEED_REDUCTION, severity = 8\<rparr>],
      \<lparr>traffic_alerts =
         [\<lparr>ar_point_name = ''MG Road'', ar_alert_type = CONGESTION, ar_severity = 8,
           ar_timestamp = ''2024-05-01T08:00:00.120000'', ar_notified = 0\<rparr>,
          \<lparr>ar_point_name = ''MG Road'', ar_alert_type = SPEED_REDUCTION, ar_severity = 8,
           ar_timestamp = ''2024-05-01T08:00:00.120000'', ar_notified = 0\<rparr>],
       outbox = [[\<lparr>point_name = ''MG Road'', alert_type = CONGESTION, severity = 8\<rparr>,
                  \<lparr>point_name = ''MG Road'', alert_type = SPEED_REDUCTION, severity = 8\<rparr>]]\<rparr>)"
  by (simp add: check_for_alerts_def detect_alerts_def row_alerts_def congestion_alert_def
      incident_alert_def speed_alert_def traffic_index_def py_int_def Let_def
      severe_congestion_threshold_def high_incident_threshold_def speed_reduction_threshold_def
      process_alerts_def truthy_str_def save_alerts_def send_alert_email_def sorted_alerts_def
      mark_notified_def)

section \<open>Properties of the collector\<close>

lemma range3: "[0..<3] = [0, 1, 2::nat]"
  by (simp add: upt_rec)

lemma flow_step_failed:
  assumes "failed (up (calls s) (Flow (rp_lat p) (rp_lon p)))"
  shows "flow_loop up now p (attempt # rest) s =
         flow_loop up now p rest
           (backoff attempt (s\<lparr>calls := calls s + 1,
                                trace := trace s @ [Get (Flow (rp_lat p) (rp_lon p))]\<rparr>))"
  using assms by (cases "up (calls s) (Flow (rp_lat p) (rp_lon p))") (simp_all add: http_get_def)

lemma incident_step_failed:
  assumes "failed (up (calls s) rq)"
  shows "incident_loop up rq (attempt # rest) s =
         incident_loop up rq rest
           (backoff attempt (s\<lparr>calls := calls s + 1, trace := trace s @ [Get rq]\<rparr>))"
  using assms by (cases "up (calls s) rq") (simp_all add: http_get_def)

text \<open>
  C2, as stated, fails. Against an upstream that answers every request with status 403,
  the flow query sends three requests, sleeping 1 s and 2 s between them, before it
  gives up.
\<close>

theorem forbidden_is_retried:
  "get_traffic_data (Some ''key'') (\<lambda>n rq. Response 403 JNull) (\<lambda>n. ''2024-05-01T08:00:00'')
     \<lparr>rp_name = ''MG Road'', rp_lat = 12.9758, rp_lon = 77.6045\<rparr> \<lparr>calls = 0, trace = []\<rparr>
   = (None, \<lparr>calls = 3,
             trace = [Get (Flow 12.9758 77.6045), Sleep 1, Get (Flow 12.9758 77.6045), Sleep 2,
                      Get (Flow 12.9758 77.6045)]\<rparr>)"
  by (simp add: get_traffic_data_def range3 http_get_def backoff_def sleep_def MAX_RETRIES_def
      truthy_str_def)

text \<open>
  C2, amended. A flow query that receives a 4xx authorization failure (such as 403) is
  treated like any other failed attempt, a transport failure or a status other than
  200: when the three attempts all fail, the client has sent exactly MAX\_RETRIES = 3
  requests, has slept 1 s after the first and 2 s after the second, not after the
  last, and returns no data.
\<close>

theorem failed_flow_query_retried:
  assumes "truthy_str api_key"
    and "\<forall>i<3. failed (up (calls s + i) (Flow (rp_lat p) (rp_lon p)))"
  shows "get_traffic_data api_key up now p s =
     (None, s\<lparr>calls := calls s + 3,
              trace := trace s @ [Get (Flow (rp_lat p) (rp_lon p)), Sleep 1,
                                  Get (Flow (rp_lat p) (rp_lon p)), Sleep 2,
                                  Get (Flow (rp_lat p) (rp_lon p))]\<rparr>)"
proof -
  let ?rq = "Flow (rp_lat p) (rp_lon p)"
  from assms(2) have f0: "failed (up (calls s) ?rq)"
    and f1: "failed (up (calls s + 1) ?rq)" and f2: "failed (up (calls s + 2) ?rq)"
    by (auto dest: spec [of _ 0] spec [of _ 1] spec [of _ 2])
  show ?thesis
    using assms(1) f0 f1 f2
    by (simp add: get_traffic_data_def range3 flow_step_failed backoff_def sleep_def
        MAX_RETRIES_def del: flow_loop.simps(2))
qed

theorem failed_flow_query_retried_witness:
  "truthy_str (Some ''key'')
   \<and> failed RequestException \<and> failed (Response 500 JNull) \<and> failed (Response 403 JNull)
   \<and> get_traffic_data (Some ''key'')
       (\<lambda>n rq. if n = 0 then RequestException
                else if n = 1 then Response 500 JNull else Response 403 JNull)
       (\<lambda>n. ''2024-05-01T08:00:00'')
       \<lparr>rp_name = ''Silk Board'', rp_lat = 12.9177, rp_lon = 77.6226\<rparr> \<lparr>calls = 0, trace = []\<rparr>
     = (None, \<lparr>calls = 3,
               trace = [Get (Flow 12.9177 77.6226), Sleep 1, Get (Flow 12.9177 77.6226), Sleep 2,
                        Get (Flow 12.9177 77.6226)]\<rparr>)"
  using failed_flow_query_retried [of "Some ''key''"
      "\<lambda>n rq. if n = 0 then RequestException
               else if n = 1 then Response 500 JNull else Response 403 JNull"
      "\<lparr>calls = 0, trace = []\<rparr>"
      "\<lparr>rp_name = ''Silk Board'', rp_lat = 12.9177, rp_lon = 77.6226\<rparr>"
      "\<lambda>n. ''2024-05-01T08:00:00''"]
  by (simp add: truthy_str_def)

lemma bounding_box_defined:
  "la \<noteq> 0 \<Longrightarrow> \<exists>box. calculate_bounding_box la lo r = Inr box"
  by (simp add: calculate_bounding_box_def Let_def)

lemma get_incident_count_returns:
  assumes "calculate_bounding_box la lo 2 = Inr box"
  shows "\<exists>n s1. get_incident_count up la lo s = (Inr n, s1)"
  using assms by (simp add: get_incident_count_def split: prod.splits)

lemma incident_all_failed:
  assumes "\<forall>i<3. failed (up (calls s + i) rq)"
  shows "incident_loop up rq [0..<MAX_RETRIES] s =
     (0, s\<lparr>calls := calls s + 3,
           trace := trace s @ [Get rq, Sleep 1, Get rq, Sleep 2, Get rq]\<rparr>)"
proof -
  from assms have f0: "failed (up (calls s) rq)"
    and f1: "failed (up (calls s + 1) rq)" and f2: "failed (up (calls s + 2) rq)"
    by (auto dest: spec [of _ 0] spec [of _ 1] spec [of _ 2])
  show ?thesis
    using f0 f1 f2
    by (simp add: range3 incident_step_failed backoff_def sleep_def MAX_RETRIES_def
        del: incident_loop.simps(2))
qed

lemma incident_count_all_failed:
  assumes "calculate_bounding_box la lo 2 = Inr box"
    and "\<forall>i<3. failed (up (calls s + i) (Incident_Details box))"
  shows "fst (get_incident_count up la lo s) = Inr 0"
  using assms by (simp add: get_incident_count_def incident_all_failed)

lemma incident_count_none_reported:
  assumes "calculate_bounding_box la lo 2 = Inr box"
    and "up (calls s) (Incident_Details box) = Response 200 (JObj [(''incidents'', JArr [])])"
  shows "fst (get_incident_count up la lo s) = Inr 0"
  using assms by (simp add: get_incident_count_def range3 MAX_RETRIES_def http_get_def)

lemma flow_record_incidents:
  assumes "dict_get data ''flowSegmentData'' JNull = Inr (JObj kvs)" and "kvs \<noteq> []"
    and "fst (get_incident_count up (rp_lat p) (rp_lon p) s) = Inr n"
  shows "\<exists>d s1. flow_record up now p data s = (Inr d, s1) \<and> td_traffic_incidents d = n"
proof -
  obtain s1 where g: "get_incident_count up (rp_lat p) (rp_lon p) s = (Inr n, s1)"
    using assms(3) by (cases "get_incident_count up (rp_lat p) (rp_lon p) s") simp
  from assms(1) obtain es where d: "data = JObj es"
    by (cases data) simp_all
  with assms(1) have m: "map_of es ''flowSegmentData'' = Some (JObj kvs)"
    using assms(2) by (simp split: option.splits)
  show ?thesis
    using assms(2) g d m by (simp add: flow_record_def)
qed

text \<open>
  C10. If every one of the MAX\_RETRIES incident queries fails, the incident count
  returned is 0, the value a successful query with an empty incident list returns; the
  record built from the same flow response then has \<open>traffic_incidents = 0\<close> in both
  cases, so the field does not tell "no data" from "no incidents".
\<close>

theorem incident_failure_reads_as_zero:
  assumes "calculate_bounding_box (rp_lat p) (rp_lon p) 2 = Inr box"
    and "\<forall>i<3. failed (up_fail (calls s + i) (Incident_Details box))"
    and "up_zero (calls s) (Incident_Details box) = Response 200 (JObj [(''incidents'', JArr [])])"
    and "dict_get data ''flowSegmentData'' JNull = Inr (JObj kvs)" and "kvs \<noteq> []"
  shows "fst (get_incident_count up_fail (rp_lat p) (rp_lon p) s) = Inr 0
       \<and> fst (get_incident_count up_zero (rp_lat p) (rp_lon p) s) = Inr 0
       \<and> (\<exists>d1 s1 d2 s2. flow_record up_fail now p data s = (Inr d1, s1)
              \<and> flow_record up_zero now p data s = (Inr d2, s2)
              \<and> td_traffic_incidents d1 = 0 \<and> td_traffic_incidents d2 = 0)"
proof -
  have a: "fst (get_incident_count up_fail (rp_lat p) (rp_lon p) s) = Inr 0"
    using assms(1,2) by (rule incident_count_all_failed)
  have b: "fst (get_incident_count up_zero (rp_lat p) (rp_lon p) s) = Inr 0"
    using assms(1,3) by (rule incident_count_none_reported)
  from flow_record_incidents [OF assms(4,5) a, of now]
  obtain d1 s1 where 1: "flow_record up_fail now p data s = (Inr d1, s1)" "td_traffic_incidents d1 = 0"
    by blast
  from flow_record_incidents [OF assms(4,5) b, of now]
  obtain d2 s2 where 2: "flow_record up_zero now p data s = (Inr d2, s2)" "td_traffic_incidents d2 = 0"
    by blast
  show ?thesis using a b 1 2 by simp
qed

theorem incident_failure_reads_as_zero_witness:
  "fst (get_incident_count (\<lambda>n rq. if n = 2 then RequestException else Response 503 JNull)
          12.9758 77.6045 \<lparr>calls = 1, trace = []\<rparr>) = Inr 0
   \<and> fst (get_incident_count (\<lambda>n rq. Response 200 (JObj [(''incidents'', JArr [])]))
          12.9758 77.6045 \<lparr>calls = 1, trace = []\<rparr>) = Inr 0"
proof -
  let ?p = "\<lparr>rp_name = ''MG Road'', rp_lat = 12.9758, rp_lon = 77.6045\<rparr>"
  let ?fail = "\<lambda>(n::nat) (rq::request). if n = 2 then RequestException else Response 503 JNull"
  let ?zero = "\<lambda>(n::nat) (rq::request). Response 200 (JObj [(''incidents'', JArr [])])"
  let ?data = "JObj [(''flowSegmentData'', JObj [(''currentSpeed'', JNum 20), (''freeFlowSpeed'', JNum 40)])]"
  obtain box where box: "calculate_bounding_box (rp_lat ?p) (rp_lon ?p) 2 = Inr box"
    using bounding_box_defined [of "rp_lat ?p" "rp_lon ?p" 2] by auto
  have fail: "\<forall>i<3. failed (?fail (calls \<lparr>calls = 1, trace = []\<rparr> + i) (Incident_Details box))"
    by simp
  have zero: "?zero (calls \<lparr>calls = 1, trace = []\<rparr>) (Incident_Details box)
      = Response 200 (JObj [(''incidents'', JArr [])])"
    by simp
  have data: "dict_get ?data ''flowSegmentData'' JNull
      = Inr (JObj [(''currentSpeed'', JNum 20), (''freeFlowSpeed'', JNum 40)])"
    by simp
  from incident_failure_reads_as_zero [OF box fail zero data]
  show ?thesis by simp
qed

lemma flow_record_reported:
  assumes "rp_lat p \<noteq> 0"
    and "map_of es ''flowSegmentData'' = Some (JObj kvs)"
    and "map_of kvs ''currentSpeed'' = Some v"
  shows "\<exists>d s1. flow_record up now p (JObj es) s = (Inr d, s1)
           \<and> td_current_speed d = v
           \<and> td_free_flow_speed d = (case map_of kvs ''freeFlowSpeed'' of None \<Rightarrow> JNull | Some x \<Rightarrow> x)"
proof -
  from assms(1) obtain box where "calculate_bounding_box (rp_lat p) (rp_lon p) 2 = Inr box"
    using bounding_box_defined by blast
  then obtain n s1 where "get_incident_count up (rp_lat p) (rp_lon p) s = (Inr n, s1)"
    using get_incident_count_returns by blast
  moreover from assms(3) have "kvs \<noteq> []" by auto
  ultimately show ?thesis using assms(2,3) by (simp add: flow_record_def)
qed

lemma calls_backoff: "calls (backoff attempt s) = calls s"
  by (simp add: backoff_def sleep_def)

lemma flow_query_reported:
  assumes "truthy_str api_key" and "rp_lat p \<noteq> 0"
    and "k < 3"
    and "\<forall>i<k. failed (up (calls s + i) (Flow (rp_lat p) (rp_lon p)))"
    and "up (calls s + k) (Flow (rp_lat p) (rp_lon p)) = Response 200 (JObj es)"
    and "map_of es ''flowSegmentData'' = Some (JObj kvs)"
    and "map_of kvs ''currentSpeed'' = Some v"
  shows "\<exists>d s1. get_traffic_data api_key up now p s = (Some d, s1)
           \<and> td_current_speed d = v
           \<and> td_free_flow_speed d = (case map_of kvs ''freeFlowSpeed'' of None \<Rightarrow> JNull | Some x \<Rightarrow> x)"
proof -
  let ?rq = "Flow (rp_lat p) (rp_lon p)"
  let ?next = "\<lambda>a s. backoff a (s\<lparr>calls := calls s + 1, trace := trace s @ [Get ?rq]\<rparr>)"
  have ok: "\<exists>d s1. flow_loop up now p (attempt # rest) s' = (Some d, s1)
           \<and> td_current_speed d = v
           \<and> td_free_flow_speed d = (case map_of kvs ''freeFlowSpeed'' of None \<Rightarrow> JNull | Some x \<Rightarrow> x)"
    if "calls s' = calls s + k" for attempt rest s'
  proof -
    from that assms(5) have u: "up (calls s') ?rq = Response 200 (JObj es)" by simp
    from flow_record_reported [OF assms(2,6,7), of up now
        "s'\<lparr>calls := calls s' + 1, trace := trace s' @ [Get ?rq]\<rparr>"]
    obtain d s1 where "flow_record up now p (JObj es)
        (s'\<lparr>calls := calls s' + 1, trace := trace s' @ [Get ?rq]\<rparr>) = (Inr d, s1)"
      and "td_current_speed d = v"
      and "td_free_flow_speed d = (case map_of kvs ''freeFlowSpeed'' of None \<Rightarrow> JNull | Some x \<Rightarrow> x)"
      by blast
    with u show ?thesis by (simp add: http_get_def)
  qed
  from assms(3) consider "k = 0" | "k = 1" | "k = 2" by linarith
  then have "\<exists>d s1. flow_loop up now p [0, 1, 2] s = (Some d, s1)
           \<and> td_current_speed d = v
           \<and> td_free_flow_speed d = (case map_of kvs ''freeFlowSpeed'' of None \<Rightarrow> JNull | Some x \<Rightarrow> x)"
  proof cases
    case 1
    then show ?thesis using ok [of s 0 "[1, 2]"] by simp
  next
    case 2
    with assms(4) have f0: "failed (up (calls s) ?rq)" by simp
    have "flow_loop up now p [0, 1, 2] s = flow_loop up now p [1, 2] (?next 0 s)"
      using flow_step_failed [where up = up and s = s and p = p] f0 by simp
    moreover have "calls (?next 0 s) = calls s + k" using 2 by (simp add: calls_backoff)
    ultimately show ?thesis using ok [of "?next 0 s" 1 "[2]"] by simp
  next
    case 3
    with assms(4) have f0: "failed (up (calls s) ?rq)" and f1: "failed (up (calls s + 1) ?rq)"
      by (auto dest: spec [of _ 0] spec [of _ 1])
    have c1: "calls (?next 0 s) = calls s + 1" by (simp add: calls_backoff)
    have "flow_loop up now p [0, 1, 2] s = flow_loop up now p [1, 2] (?next 0 s)"
      using flow_step_failed [where up = up and s = s and p = p] f0 by simp
    moreover have "flow_loop up now p [1, 2] (?next 0 s)
        = flow_loop up now p [2] (?next 1 (?next 0 s))"
      using flow_step_failed [where up = up and s = "?next 0 s" and p = p] f1 c1 by simp
    moreover have "calls (?next 1 (?next 0 s)) = calls s + k"
      using 3 by (simp add: calls_backoff)
    ultimately show ?thesis using ok [of "?next 1 (?next 0 s)" 2 "[]"] by simp
  qed
  then show ?thesis
    using assms(1) by (simp add: get_traffic_data_def MAX_RETRIES_def range3)
qed

text \<open>
  C9, as stated, fails. A run over one point whose flow response reports
  \<open>currentSpeed = -5\<close> leaves a row with \<open>current_speed = -5\<close> in the table.
\<close>

theorem negative_speed_persisted:
  "map td_current_speed
     (traffic_table
        (collect_data (Some ''key'')
           (\<lambda>n rq. case rq of
                      Flow la lo \<Rightarrow>
                        Response 200 (JObj [(''flowSegmentData'',
                          JObj [(''currentSpeed'', JNum (- 5)), (''freeFlowSpeed'', JNum 40)])])
                    | Incident_Details box \<Rightarrow> Response 200 (JObj [(''incidents'', JArr [])]))
           (\<lambda>n. ''2024-05-01T08:00:00'')
           [\<lparr>rp_name = ''MG Road'', rp_lat = 12.9758, rp_lon = 77.6045\<rparr>]
           \<lparr>calls = 0, trace = []\<rparr> []))
   = [JNum (- 5)]"
  by (simp add: collect_data_def collect_point_def get_traffic_data_def truthy_str_def range3
      MAX_RETRIES_def http_get_def flow_record_def get_incident_count_def
      calculate_bounding_box_def Let_def save_traffic_data_def sleep_def)

text \<open>
  C9, amended. The collector does not validate speeds. For a monitored point whose
  latitude is not 0 and a configured API key: when one of the MAX\_RETRIES attempts of
  the flow query is answered with status 200, the attempts before it having failed, and
  the \<open>flowSegmentData\<close> object of the body, whatever else the body holds, reports the
  current speed \<open>v\<close>, where \<open>v\<close> and the reported free-flow speed are values sqlite3 can
  bind, the collector appends exactly one sample to the time-series table and its
  \<open>current_speed\<close> is \<open>v\<close>, unchanged, negative or not.
\<close>

theorem speed_persisted_as_reported:
  assumes "truthy_str api_key" and "rp_lat p \<noteq> 0"
    and "k < 3"
    and "\<forall>i<k. failed (up (calls (net c) + i) (Flow (rp_lat p) (rp_lon p)))"
    and "up (calls (net c) + k) (Flow (rp_lat p) (rp_lon p)) = Response 200 (JObj es)"
    and "map_of es ''flowSegmentData'' = Some (JObj kvs)"
    and "map_of kvs ''currentSpeed'' = Some v"
    and "sql_value v"
    and "sql_value (case map_of kvs ''freeFlowSpeed'' of None \<Rightarrow> JNull | Some x \<Rightarrow> x)"
  shows "\<exists>d. traffic_table (collect_point api_key up now p c) = traffic_table c @ [d]
           \<and> td_current_speed d = v"
proof -
  from flow_query_reported [where up = up and s = "net c" and now = now and p = p and k = k
      and api_key = api_key and es = es and kvs = kvs and v = v] assms(1-7)
  obtain d s1 where "get_traffic_data api_key up now p (net c) = (Some d, s1)"
    and "td_current_speed d = v"
    and "td_free_flow_speed d = (case map_of kvs ''freeFlowSpeed'' of None \<Rightarrow> JNull | Some x \<Rightarrow> x)"
    by blast
  then show ?thesis using assms(8,9)
    by (simp add: collect_point_def save_traffic_data_def)
qed

theorem speed_persisted_as_reported_witness:
  "map td_current_speed
     (traffic_table
        (collect_point (Some ''key'')
           (\<lambda>n rq. if n = 0 then Response 503 JNull
                    else Response 200 (JObj [(''flowSegmentData'',
                           JObj [(''frc'', JStr ''FRC2''), (''currentSpeed'', JInt (- 12)),
                                 (''freeFlowSpeed'', JInt 40)]),
                          (''incidents'', JArr [])]))
           (\<lambda>n. ''2024-05-01T08:00:00'')
           \<lparr>rp_name = ''Hebbal'', rp_lat = 13.0399, rp_lon = 77.5989\<rparr>
           \<lparr>net = \<lparr>calls = 0, trace = []\<rparr>, traffic_table = [], successful_points = 0\<rparr>))
   = [JInt (- 12)]"
proof -
  let ?up = "\<lambda>(n::nat) (rq::request). if n = 0 then Response 503 JNull
                    else Response 200 (JObj [(''flowSegmentData'',
                           JObj [(''frc'', JStr ''FRC2''), (''currentSpeed'', JInt (- 12)),
                                 (''freeFlowSpeed'', JInt 40)]),
                          (''incidents'', JArr [])])"
  let ?p = "\<lparr>rp_name = ''Hebbal'', rp_lat = 13.0399, rp_lon = 77.5989\<rparr>"
  let ?c = "\<lparr>net = \<lparr>calls = 0, trace = []\<rparr>, traffic_table = [], successful_points = 0\<rparr>"
  have 1: "truthy_str (Some ''key'')" by (simp add: truthy_str_def)
  have 2: "rp_lat ?p \<noteq> 0" by simp
  have 3: "(1::nat) < 3" by simp
  have 4: "\<forall>i<1. failed (?up (calls (net ?c) + i) (Flow (rp_lat ?p) (rp_lon ?p)))" by simp
  have 5: "?up (calls (net ?c) + 1) (Flow (rp_lat ?p) (rp_lon ?p))
     = Response 200 (JObj [(''flowSegmentData'',
                           JObj [(''frc'', JStr ''FRC2''), (''currentSpeed'', JInt (- 12)),
                                 (''freeFlowSpeed'', JInt 40)]),
                          (''incidents'', JArr [])])" by simp
  have 6: "map_of [(''flowSegmentData'',
                           JObj [(''frc'', JStr ''FRC2''), (''currentSpeed'', JInt (- 12)),
                                 (''freeFlowSpeed'', JInt 40)]),
                          (''incidents'', JArr [])] ''flowSegmentData''
     = Some (JObj [(''frc'', JStr ''FRC2''), (''currentSpeed'', JInt (- 12)),
                                 (''freeFlowSpeed'', JInt 40)])" by simp
  have 7: "map_of [(''frc'', JStr ''FRC2''), (''currentSpeed'', JInt (- 12)),
                                 (''freeFlowSpeed'', JInt 40)] ''currentSpeed'' = Some (JInt (- 12))"
    by simp
  have 8: "sql_value (JInt (- 12))" by simp
  have 9: "sql_value (case map_of [(''frc'', JStr ''FRC2''), (''currentSpeed'', JInt (- 12)),
                                 (''freeFlowSpeed'', JInt 40)] ''freeFlowSpeed''
                      of None \<Rightarrow> JNull | Some x \<Rightarrow> x)" by simp
  from speed_persisted_as_reported [where up = ?up and c = ?c and p = ?p and k = 1
      and api_key = "Some ''key''" and now = "\<lambda>n. ''2024-05-01T08:00:00''", OF 1 2 3 4 5 6 7 8 9]
  show ?thesis by auto
qed

section \<open>Properties of route evaluation\<close>

subsection \<open>The cache\<close>






subsection \<open>Finding trips\<close>

lemma find_routes_unresolved:
  assumes "get_stop_id_by_name (stops_df g) source_name = None
         \<or> get_stop_id_by_name (stops_df g) dest_name = None"
  shows "find_routes_between g source_name dest_name = []"
  using assms by (auto simp: find_routes_between_def split: option.splits)

lemma find_routes_resolved:
  assumes "get_stop_id_by_name (stops_df g) source_name = Some source_id"
    and "get_stop_id_by_name (stops_df g) dest_name = Some dest_id"
    and "id_truthy source_id" and "id_truthy dest_id"
  shows "set (find_routes_between g source_name dest_name) =
         {t \<in> st_trip_id ` set (stop_times_df g).
            source_before_dest (map st_stop_id (trip_rows (stop_times_df g) t)) source_id dest_id}"
    and "sorted (find_routes_between g source_name dest_name)"
    and "distinct (find_routes_between g source_name dest_name)"
  using assms by (auto simp: find_routes_between_def trip_groups_def sorted_wrt_filter)

lemma get_stop_id_ignores_case:
  assumes "lower a = lower b"
  shows "get_stop_id_by_name rows a = get_stop_id_by_name rows b"
  using assms by (simp add: get_stop_id_by_name_def)

text \<open>
  C8 (the code breaks it). With a numeric \<open>stop_id\<close> column, the stop with id 0 is
  found by name, case-insensitively, and trip 7 visits it before the destination; yet
  \<open>find_routes_between\<close> returns no trip, because \<open>not source_id\<close> is true of the id 0 as
  it is of \<open>None\<close>. The same schedule with the id 1 returns trip 7.
\<close>

theorem stop_id_zero_finds_no_trip:
  "get_stop_id_by_name
     [\<lparr>stop_id = IntId 0, stop_name = ''Majestic'', stop_lat = Some 12.9774, stop_lon = Some 77.5665\<rparr>,
      \<lparr>stop_id = IntId 5, stop_name = ''Hebbal'', stop_lat = Some 13.0399, stop_lon = Some 77.5989\<rparr>]
     ''majestic'' = Some (IntId 0)
   \<and> get_stop_id_by_name
     [\<lparr>stop_id = IntId 0, stop_name = ''Majestic'', stop_lat = Some 12.9774, stop_lon = Some 77.5665\<rparr>,
      \<lparr>stop_id = IntId 5, stop_name = ''Hebbal'', stop_lat = Some 13.0399, stop_lon = Some 77.5989\<rparr>]
     ''HEBBAL'' = Some (IntId 5)
   \<and> source_before_dest
       (map st_stop_id
          (trip_rows [\<lparr>st_trip_id = 7::nat, st_stop_id = IntId 0, stop_sequence = 1\<rparr>,
                      \<lparr>st_trip_id = 7, st_stop_id = IntId 5, stop_sequence = 2\<rparr>] 7))
       (IntId 0) (IntId 5)
   \<and> find_routes_between
       \<lparr>stops_df =
          [\<lparr>stop_id = IntId 0, stop_name = ''Majestic'', stop_lat = Some 12.9774, stop_lon = Some 77.5665\<rparr>,
           \<lparr>stop_id = IntId 5, stop_name = ''Hebbal'', stop_lat = Some 13.0399, stop_lon = Some 77.5989\<rparr>],
        stop_times_df =
          [\<lparr>st_trip_id = 7::nat, st_stop_id = IntId 0, stop_sequence = 1\<rparr>,
           \<lparr>st_trip_id = 7, st_stop_id = IntId 5, stop_sequence = 2\<rparr>],
        trips_df = [\<lparr>tr_trip_id = 7, tr_route_id = 1::nat\<rparr>],
        routes_df = [\<lparr>rt_route_id = 1, route_long_name = ''Majestic - Hebbal''\<rparr>]\<rparr>
       ''majestic'' ''HEBBAL'' = []
   \<and> find_routes_between
       \<lparr>stops_df =
          [\<lparr>stop_id = IntId 1, stop_name = ''Majestic'', stop_lat = Some 12.9774, stop_lon = Some 77.5665\<rparr>,
           \<lparr>stop_id = IntId 5, stop_name = ''Hebbal'', stop_lat = Some 13.0399, stop_lon = Some 77.5989\<rparr>],
        stop_times_df =
          [\<lparr>st_trip_id = 7::nat, st_stop_id = IntId 1, stop_sequence = 1\<rparr>,
           \<lparr>st_trip_id = 7, st_stop_id = IntId 5, stop_sequence = 2\<rparr>],
        trips_df = [\<lparr>tr_trip_id = 7, tr_route_id = 1::nat\<rparr>],
        routes_df = [\<lparr>rt_route_id = 1, route_long_name = ''Majestic - Hebbal''\<rparr>]\<rparr>
       ''majestic'' ''HEBBAL'' = [7]"
  by (simp add: find_routes_between_def get_stop_id_by_name_def lower_def lower_char_def
      trip_groups_def trip_rows_def source_before_dest_def)

subsection \<open>Scoring and ranking\<close>

lemma example_stops:
  "get_ordered_stops_for_trip example_schedule 1 =
     [\<lparr>si_stop_id = StrId ''A'', si_stop_name = ''A'', lat = 12, lon = 77\<rparr>,
      \<lparr>si_stop_id = StrId ''B'', si_stop_name = ''B'', lat = 13, lon = 77\<rparr>,
      \<lparr>si_stop_id = StrId ''C'', si_stop_name = ''C'', lat = 13, lon = 78\<rparr>]"
  "get_ordered_stops_for_trip example_schedule 3 =
     [\<lparr>si_stop_id = StrId ''C'', si_stop_name = ''C'', lat = 13, lon = 78\<rparr>,
      \<lparr>si_stop_id = StrId ''B'', si_stop_name = ''B'', lat = 13, lon = 77\<rparr>]"
  "get_ordered_stops_for_trip example_schedule 4 =
     [\<lparr>si_stop_id = StrId ''A'', si_stop_name = ''A'', lat = 12, lon = 77\<rparr>,
      \<lparr>si_stop_id = StrId ''C'', si_stop_name = ''C'', lat = 13, lon = 78\<rparr>]"
  by (simp_all add: example_schedule_def get_ordered_stops_for_trip_def trip_rows_def
      stop_entry_def)

lemma example_tables:
  "trips_df example_schedule =
     [\<lparr>tr_trip_id = 1, tr_route_id = 10\<rparr>, \<lparr>tr_trip_id = 3, tr_route_id = 11\<rparr>,
      \<lparr>tr_trip_id = 4, tr_route_id = 12\<rparr>]"
  "routes_df example_schedule =
     [\<lparr>rt_route_id = 10, route_long_name = ''A - C''\<rparr>,
      \<lparr>rt_route_id = 11, route_long_name = ''C - B''\<rparr>,
      \<lparr>rt_route_id = 12, route_long_name = ''A - C express''\<rparr>]"
  by (simp_all add: example_schedule_def)

lemma digits_values:
  "digits 12 = ''12''" "digits 13 = ''13''" "digits 77 = ''77''" "digits 78 = ''78''"
  by (simp_all add: digits.simps)

lemma fraction4_zero: "fraction4 0 = ''0''"
  by (simp add: fraction4_def digits.simps Let_def)

lemma float_str_values:
  "float_str 12 = ''12.0''" "float_str 13 = ''13.0''"
  "float_str 77 = ''77.0''" "float_str 78 = ''78.0''"
  by (simp_all add: float_str_def digits_values fraction4_zero)

lemma py_round_values:
  "py_round 12 4 = 12" "py_round 13 4 = 13" "py_round 77 4 = 77" "py_round 78 4 = 78"
  by (simp_all add: py_round_def round_half_even_def Let_def)

lemma example_keys:
  "cache_key 12 77 = ''12.0_77.0''"
  "cache_key 13 77 = ''13.0_77.0''"
  "cache_key 13 78 = ''13.0_78.0''"
  by (simp_all add: cache_key_def py_round_values float_str_values)




lemma tie_scenario:
  "map_sum id (map (\<lambda>r. (trip_id r, est_delay_min r)))
     (fst (evaluate_routes example_schedule (example_upstream 15) [3, 4, 1] initial_state))
   = Inr [(4, 0), (3, 3 / 4), (1, 3 / 4)]"
  by (simp add: evaluate_routes_def score_trip_def example_stops example_tables
      get_congestion_def example_keys example_upstream_def initial_state_def flow_speeds_def
      stop_contribution_def py_truediv_def Let_def py_round_def round_half_even_def)

lemma score_trip_id:
  assumes "fst (score_trip g up t w) = Inr (Some r)"
  shows "trip_id r = t"
  using assms
  by (auto simp: score_trip_def Let_def split: prod.splits sum.splits list.splits if_splits)

lemma score_trips_subseq:
  assumes "fst (score_trips g up ts acc w) = Inr rs"
  shows "\<exists>new. rs = acc @ new \<and> subseq (map trip_id new) ts"
  using assms
proof (induction ts arbitrary: acc w)
  case Nil
  then show ?case by simp
next
  case (Cons t ts)
  obtain res w1 where st: "score_trip g up t w = (res, w1)"
    by (cases "score_trip g up t w")
  show ?case
  proof (cases res)
    case (Inl e)
    with st Cons.prems show ?thesis by simp
  next
    case (Inr opt)
    show ?thesis
    proof (cases opt)
      case None
      with st Inr Cons.prems have "fst (score_trips g up ts acc w1) = Inr rs" by simp
      from Cons.IH [OF this] obtain new where "rs = acc @ new" "subseq (map trip_id new) ts"
        by blast
      then show ?thesis by (auto intro: subseq_Cons')
    next
      case (Some r)
      with st Inr have id: "trip_id r = t"
        using score_trip_id [of g up t w r] by simp
      from st Inr Some Cons.prems have "fst (score_trips g up ts (acc @ [r]) w1) = Inr rs"
        by simp
      from Cons.IH [OF this] obtain new
        where new: "rs = (acc @ [r]) @ new" "subseq (map trip_id new) ts" by blast
      have "rs = acc @ (r # new)" using new(1) by simp
      moreover have "subseq (map trip_id (r # new)) (t # ts)" using new(2) id by simp
      ultimately show ?thesis by blast
    qed
  qed
qed

lemma evaluate_routes_sorted:
  assumes "fst (evaluate_routes g up trip_ids w) = Inr results"
  shows "\<exists>route_scores. fst (score_trips g up trip_ids [] w) = Inr route_scores
           \<and> results = sort_key est_delay_min route_scores"
  using assms by (auto simp: evaluate_routes_def split: prod.splits sum.splits)

text \<open>
  C5. Whenever \<open>evaluate_routes\<close> returns, its list is sorted ascending by
  \<open>est_delay_min\<close>; the scores were collected in the order of the input list (their trip
  ids are a subsequence of it), and for every delay value the results with that delay
  are the collected scores with that delay, in the same order.
\<close>

theorem ranked_by_delay:
  assumes "fst (evaluate_routes g up trip_ids w) = Inr results"
  shows "sorted (map est_delay_min results)
       \<and> (\<exists>route_scores. fst (score_trips g up trip_ids [] w) = Inr route_scores
             \<and> subseq (map trip_id route_scores) trip_ids
             \<and> (\<forall>k. filter (\<lambda>r. est_delay_min r = k) results
                      = filter (\<lambda>r. est_delay_min r = k) route_scores))"
proof -
  from evaluate_routes_sorted [OF assms] obtain route_scores
    where rs: "fst (score_trips g up trip_ids [] w) = Inr route_scores"
      and res: "results = sort_key est_delay_min route_scores" by blast
  from score_trips_subseq [OF rs] have "subseq (map trip_id route_scores) trip_ids" by simp
  moreover have "sorted (map est_delay_min results)" using res by (simp add: sorted_sort_key)
  moreover have "\<forall>k. filter (\<lambda>r. est_delay_min r = k) results
                      = filter (\<lambda>r. est_delay_min r = k) route_scores"
    using res by (simp add: sort_key_stable)
  ultimately show ?thesis using rs by blast
qed










theorem ranked_by_delay_witness:
  "\<exists>results. fst (evaluate_routes example_schedule (example_upstream 15) [3, 4, 1] initial_state)
               = Inr results
       \<and> map (\<lambda>r. (trip_id r, est_delay_min r)) results = [(4, 0), (3, 3 / 4), (1, 3 / 4)]
       \<and> sorted (map est_delay_min results)"
proof -
  obtain results
    where e: "fst (evaluate_routes example_schedule (example_upstream 15) [3, 4, 1] initial_state)
               = Inr results"
      and m: "map (\<lambda>r. (trip_id r, est_delay_min r)) results = [(4, 0), (3, 3 / 4), (1, 3 / 4)]"
    using tie_scenario
    by (cases "fst (evaluate_routes example_schedule (example_upstream 15) [3, 4, 1] initial_state)")
       simp_all
  from ranked_by_delay [OF e] have "sorted (map est_delay_min results)" by blast
  with e m show ?thesis by (intro exI [of _ results]) simp
qed

end
